theory Spec2Isabelle
  imports Complex_Main
begin

section \<open>JavaScript values\<close>

text \<open>
  A JavaScript number as far as \<^verbatim>\<open>server.ts\<close> looks at it: the amounts and transaction
  values are only compared (\<^verbatim>\<open><=\<close>, \<^verbatim>\<open>>=\<close>, \<^verbatim>\<open>isNaN\<close>), never computed with, so a
  finite double is the rational it denotes, next to the three special values. Every
  comparison with \<^verbatim>\<open>NaN\<close> is false. Negative zero compares as zero.
\<close>

datatype jsnum = NaN | NegInf | Fin rat | PosInf

fun js_le :: "jsnum \<Rightarrow> jsnum \<Rightarrow> bool" where
  "js_le NaN b = False"
| "js_le a NaN = False"
| "js_le NegInf b = True"
| "js_le (Fin x) NegInf = False"
| "js_le (Fin x) (Fin y) = (x \<le> y)"
| "js_le (Fin x) PosInf = True"
| "js_le PosInf NegInf = False"
| "js_le PosInf (Fin y) = False"
| "js_le PosInf PosInf = True"

definition js_ge :: "jsnum \<Rightarrow> jsnum \<Rightarrow> bool" where
  "js_ge a b = js_le b a"

fun isNaN :: "jsnum \<Rightarrow> bool" where
  "isNaN NaN = True"
| "isNaN NegInf = False"
| "isNaN (Fin x) = False"
| "isNaN PosInf = False"

fun isFinite :: "jsnum \<Rightarrow> bool" where
  "isFinite NaN = False"
| "isFinite NegInf = False"
| "isFinite (Fin x) = True"
| "isFinite PosInf = False"

text \<open>
  A value of a parsed JSON request body, or \<^verbatim>\<open>undefined\<close> for a field that is absent.
  An object or array is fresh for every request and is kept apart by its allocation number.
\<close>

datatype jsval =
    JUndefined
  | JNull
  | JBool bool
  | JNum jsnum
  | JStr string
  | JObject nat

fun truthy :: "jsval \<Rightarrow> bool" where
  "truthy JUndefined = False"
| "truthy JNull = False"
| "truthy (JBool b) = b"
| "truthy (JNum NaN) = False"
| "truthy (JNum NegInf) = True"
| "truthy (JNum (Fin x)) = (x \<noteq> 0)"
| "truthy (JNum PosInf) = True"
| "truthy (JStr s) = (s \<noteq> [])"
| "truthy (JObject n) = True"

section \<open>Broadcast messages and observer connections\<close>

text \<open>
  The objects handed to \<^verbatim>\<open>broadcast\<close>. The text of the \<^verbatim>\<open>Preparing for $... payment...\<close>
  status keeps the amount it formats with \<^verbatim>\<open>toFixed(2)\<close> as an argument.
\<close>

datatype msgtext = Lit string | PreparingFor jsnum

datatype message =
    Status msgtext bool
  | PaymentSuccess string jsnum
  | PaymentFailure string "string option"
  | TransactionConfirmed string

datatype readyState = CONNECTING | OPEN | CLOSING | CLOSED

text \<open>
  A connected WebSocket: what \<^verbatim>\<open>readyState\<close> reads, whether \<^verbatim>\<open>send\<close> throws, and what
  the peer has been sent so far.
\<close>

record client =
  cid :: nat
  ready :: readyState
  sendThrows :: bool
  received :: "message list"

text \<open>
  \<^verbatim>\<open>client.send(data)\<close>: the peer gets the message unless the call throws. The body of
  \<^verbatim>\<open>clients.forEach\<close> in \<^verbatim>\<open>broadcast\<close> sends to a client whose \<^verbatim>\<open>readyState\<close> is
  \<^verbatim>\<open>OPEN\<close> and catches what the call throws.
\<close>

definition ws_send :: "message \<Rightarrow> client \<Rightarrow> client" where
  "ws_send m c = (if sendThrows c then c else c\<lparr>received := received c @ [m]\<rparr>)"

definition send_to :: "message \<Rightarrow> client \<Rightarrow> client" where
  "send_to m c = (if ready c = OPEN then ws_send m c else c)"

text \<open>Whether one client gets a message that is broadcast now.\<close>

definition delivers :: "client \<Rightarrow> bool" where
  "delivers c = (ready c = OPEN \<and> \<not> sendThrows c)"

section \<open>The payment server's state\<close>

text \<open>
  \<^verbatim>\<open>interface PaymentSession\<close>. The \<^verbatim>\<open>timeout\<close> field is the handle \<^verbatim>\<open>setTimeout\<close> returned.
  The registry \<^verbatim>\<open>activePayments\<close> is keyed by the \<^verbatim>\<open>merchantAddress\<close> value of the request.
\<close>

record PaymentSession =
  amount :: jsnum
  merchantAddress :: jsval
  startTime :: int
  timeout :: nat

text \<open>
  The closure handed to \<^verbatim>\<open>AlchemyService.monitorTransactions\<close>: it captures the address,
  the amount and the timer handle of the call of \<^verbatim>\<open>monitorTransaction\<close> that made it.
\<close>

record watcher =
  w_address :: jsval
  w_amount :: jsnum
  w_timeout :: nat

text \<open>A transaction as the callback reads it: \<^verbatim>\<open>tx.value\<close>, a number.\<close>

datatype tx = Tx (tx_value: jsnum)

text \<open>
  \<^verbatim>\<open>paymentResult\<close> of \<^verbatim>\<open>nfcApp.processPayment\<close>, and what a \<^verbatim>\<open>catch (error: any)\<close>
  receives: \<^verbatim>\<open>null\<close> or \<^verbatim>\<open>undefined\<close> (a promise rejected without a reason, a
  \<^verbatim>\<open>throw undefined\<close>), or any other value, with its \<^verbatim>\<open>message\<close> when it has one.
\<close>

record paymentResult =
  success :: bool
  result_message :: string
  errorType :: "string option"

datatype thrown = ThrownNullish | Thrown "string option"

datatype body =
    ErrorBody string
  | SuccessBody string
  | FailureBody string "string option"

text \<open>
  What the server does to the world, in the order it does it. \<open>AHandlerRejects\<close> is the
  promise of an \<^verbatim>\<open>initiatePaymentHandler\<close> call rejecting, with no response sent by the
  handler.
\<close>

datatype action =
    ASetTimeout nat
  | AClearTimeout nat
  | ASet jsval
  | ADelete jsval
  | ABroadcast message
  | ARespond nat nat body
  | AHandlerRejects nat

text \<open>
  Where an \<^verbatim>\<open>initiatePaymentHandler\<close> call is suspended: at the \<^verbatim>\<open>await\<close> inside
  \<^verbatim>\<open>monitorTransaction\<close> (with the address, amount and timer handle of that call) or at
  \<^verbatim>\<open>await nfcApp.processPayment(amount)\<close>.
\<close>

datatype continuation =
    AwaitMonitor jsval jsnum nat
  | AwaitProcessPayment jsnum

text \<open>
  \<^verbatim>\<open>timers\<close> holds the handles of \<^verbatim>\<open>setTimeout\<close> that have neither fired nor been cleared,
  each with the \<^verbatim>\<open>merchantAddress\<close> its callback captured. \<^verbatim>\<open>subscriptions\<close> holds the
  callbacks registered with the transaction feed; \<^verbatim>\<open>server.ts\<close> drops the \<^verbatim>\<open>unsubscribe\<close>
  function that \<^verbatim>\<open>monitorTransaction\<close> returns, so nothing takes a callback out again.
  \<^verbatim>\<open>pending\<close> maps a request to the point its handler is suspended at.
\<close>

record server =
  activePayments :: "jsval \<rightharpoonup> PaymentSession"
  timers :: "(nat \<times> jsval) list"
  nextTimer :: nat
  subscriptions :: "watcher list"
  pending :: "nat \<rightharpoonup> continuation"
  clients :: "client list"
  trace :: "action list"

definition init :: server where
  "init = \<lparr>activePayments = Map.empty, timers = [], nextTimer = 0, subscriptions = [],
            pending = Map.empty, clients = [], trace = []\<rparr>"

definition broadcasts :: "server \<Rightarrow> message list" where
  "broadcasts s = concat (map (\<lambda>a. case a of ABroadcast m \<Rightarrow> [m] | _ \<Rightarrow> []) (trace s))"

definition responses :: "server \<Rightarrow> nat \<Rightarrow> (nat \<times> body) list" where
  "responses s rid =
     concat (map (\<lambda>a. case a of ARespond r st b \<Rightarrow> (if r = rid then [(st, b)] else []) | _ \<Rightarrow> [])
       (trace s))"

text \<open>The live timers whose callback was made for a given address.\<close>

definition timers_for :: "server \<Rightarrow> jsval \<Rightarrow> nat list" where
  "timers_for s a = map fst (filter (\<lambda>t. snd t = a) (timers s))"

section \<open>The primitives\<close>

text \<open>
  \<^verbatim>\<open>export function broadcast(message)\<close>: every client of the set is visited in
  insertion order; the set itself is not touched.
\<close>

definition broadcast :: "message \<Rightarrow> server \<Rightarrow> server" where
  "broadcast m s = s\<lparr>clients := map (send_to m) (clients s), trace := trace s @ [ABroadcast m]\<rparr>"

definition setTimeout :: "jsval \<Rightarrow> server \<Rightarrow> nat \<times> server" where
  "setTimeout a s =
     (nextTimer s,
      s\<lparr>timers := timers s @ [(nextTimer s, a)], nextTimer := Suc (nextTimer s),
        trace := trace s @ [ASetTimeout (nextTimer s)]\<rparr>)"

definition clearTimeout :: "nat \<Rightarrow> server \<Rightarrow> server" where
  "clearTimeout h s =
     s\<lparr>timers := filter (\<lambda>t. fst t \<noteq> h) (timers s), trace := trace s @ [AClearTimeout h]\<rparr>"

definition activePayments_set :: "jsval \<Rightarrow> PaymentSession \<Rightarrow> server \<Rightarrow> server" where
  "activePayments_set a p s =
     s\<lparr>activePayments := (activePayments s)(a \<mapsto> p), trace := trace s @ [ASet a]\<rparr>"

definition activePayments_delete :: "jsval \<Rightarrow> server \<Rightarrow> server" where
  "activePayments_delete a s =
     s\<lparr>activePayments := (activePayments s)(a := None), trace := trace s @ [ADelete a]\<rparr>"

definition respond :: "nat \<Rightarrow> nat \<Rightarrow> body \<Rightarrow> server \<Rightarrow> server" where
  "respond rid st b s = s\<lparr>trace := trace s @ [ARespond rid st b]\<rparr>"

section \<open>The callbacks of a payment session\<close>

text \<open>
  The callback given to \<^verbatim>\<open>setTimeout\<close> in \<^verbatim>\<open>monitorTransaction\<close>: broadcast the timeout
  failure, then delete the entry of the captured address.
\<close>

definition timeoutCallback :: "jsval \<Rightarrow> server \<Rightarrow> server" where
  "timeoutCallback a s =
     activePayments_delete a
       (broadcast (PaymentFailure ''Payment timeout - no transaction detected''
                     (Some ''PAYMENT_TIMEOUT'')) s)"

text \<open>
  The timer with handle \<open>h\<close> expires. A handle that was cleared, or that has fired
  before, does nothing; a live one leaves the live timers and runs its callback.
\<close>

definition timer_fired :: "nat \<Rightarrow> server \<Rightarrow> server" where
  "timer_fired h s =
     (case map_of (timers s) h of
        None \<Rightarrow> s
      | Some a \<Rightarrow> timeoutCallback a (s\<lparr>timers := filter (\<lambda>t. fst t \<noteq> h) (timers s)\<rparr>))"

text \<open>
  The callback given to \<^verbatim>\<open>AlchemyService.monitorTransactions\<close>, called by the feed with one
  transaction: \<^verbatim>\<open>if (tx.value >= amount) { clearTimeout; delete; broadcast }\<close>.
\<close>

definition onMatch :: "watcher \<Rightarrow> tx \<Rightarrow> server \<Rightarrow> server" where
  "onMatch w t s =
     (if js_ge (tx_value t) (w_amount w)
      then broadcast (TransactionConfirmed ''Payment confirmed!'')
             (activePayments_delete (w_address w) (clearTimeout (w_timeout w) s))
      else s)"

text \<open>The feed calls the \<open>i\<close>-th registered callback.\<close>

definition feed_event :: "nat \<Rightarrow> tx \<Rightarrow> server \<Rightarrow> server" where
  "feed_event i t s =
     (if i < length (subscriptions s) then onMatch (subscriptions s ! i) t s else s)"

section \<open>monitorTransaction\<close>

text \<open>
  \<^verbatim>\<open>monitorTransaction\<close> up to its \<^verbatim>\<open>await\<close>: the timer is set, the session is stored
  under the address (over whatever was stored there), and the call is suspended until the
  feed's subscription setup settles. \<open>now\<close> is what \<^verbatim>\<open>Date.now()\<close> reads.
\<close>

definition monitorTransaction :: "int \<Rightarrow> nat \<Rightarrow> jsval \<Rightarrow> jsnum \<Rightarrow> server \<Rightarrow> server" where
  "monitorTransaction now rid a n s =
     (case setTimeout a s of
        (h, s1) \<Rightarrow>
          (activePayments_set a
             \<lparr>amount = n, merchantAddress = a, startTime = now, timeout = h\<rparr> s1)
          \<lparr>pending := (pending s1)(rid \<mapsto> AwaitMonitor a n h)\<rparr>)"

text \<open>
  \<^verbatim>\<open>error.message || 'Internal server error during payment processing.'\<close>. Reading
  \<^verbatim>\<open>message\<close> of \<^verbatim>\<open>null\<close> or \<^verbatim>\<open>undefined\<close> raises a \<^verbatim>\<open>TypeError\<close>: there is no
  message then.
\<close>

fun errorMessage :: "thrown \<Rightarrow> string option" where
  "errorMessage ThrownNullish = None"
| "errorMessage (Thrown None) = Some ''Internal server error during payment processing.''"
| "errorMessage (Thrown (Some m)) =
     Some (if m = [] then ''Internal server error during payment processing.'' else m)"

text \<open>
  The \<^verbatim>\<open>catch\<close> of \<^verbatim>\<open>initiatePaymentHandler\<close>. When \<^verbatim>\<open>error.message\<close> raises, the
  \<^verbatim>\<open>TypeError\<close> leaves the handler from inside its \<^verbatim>\<open>catch\<close>: nothing is broadcast and
  no response is sent.
\<close>

definition handler_catch :: "nat \<Rightarrow> thrown \<Rightarrow> server \<Rightarrow> server" where
  "handler_catch rid e s =
     (case errorMessage e of
        None \<Rightarrow> s\<lparr>trace := trace s @ [AHandlerRejects rid]\<rparr>
      | Some m \<Rightarrow>
          respond rid 500 (ErrorBody ''Internal server error'')
            (broadcast (PaymentFailure (''Server error: '' @ m) (Some ''SERVER_ERROR'')) s))"

text \<open>
  The subscription setup fails: the \<^verbatim>\<open>catch\<close> of \<^verbatim>\<open>monitorTransaction\<close> clears the timer,
  deletes the entry, broadcasts and rethrows into the \<^verbatim>\<open>catch\<close> of the handler.
\<close>

definition monitorTransaction_catch :: "nat \<Rightarrow> thrown \<Rightarrow> server \<Rightarrow> server" where
  "monitorTransaction_catch rid e s =
     (case pending s rid of
        Some (AwaitMonitor a n h) \<Rightarrow>
          handler_catch rid e
            (broadcast (PaymentFailure ''Failed to monitor transaction'' (Some ''MONITORING_ERROR''))
               (activePayments_delete a
                  (clearTimeout h (s\<lparr>pending := (pending s)(rid := None)\<rparr>))))
      | Some (AwaitProcessPayment n) \<Rightarrow> s
      | None \<Rightarrow> s)"

text \<open>
  The subscription setup succeeds: the callback is with the feed from now on,
  \<^verbatim>\<open>monitorTransaction\<close> returns \<^verbatim>\<open>unsubscribe\<close>, the handler drops it and calls
  \<^verbatim>\<open>nfcApp.processPayment(amount)\<close>, where it is suspended again.
\<close>

definition monitorTransaction_resolved :: "nat \<Rightarrow> server \<Rightarrow> server" where
  "monitorTransaction_resolved rid s =
     (case pending s rid of
        Some (AwaitMonitor a n h) \<Rightarrow>
          s\<lparr>subscriptions := subscriptions s @ [\<lparr>w_address = a, w_amount = n, w_timeout = h\<rparr>],
            pending := (pending s)(rid \<mapsto> AwaitProcessPayment n)\<rparr>
      | Some (AwaitProcessPayment n) \<Rightarrow> s
      | None \<Rightarrow> s)"

section \<open>initiatePaymentHandler\<close>

text \<open>\<^verbatim>\<open>typeof amount !== 'number' || amount <= 0 || isNaN(amount)\<close>\<close>

fun invalid_amount :: "jsval \<Rightarrow> bool" where
  "invalid_amount (JNum n) = (js_le n (Fin 0) \<or> isNaN n)"
| "invalid_amount JUndefined = True"
| "invalid_amount JNull = True"
| "invalid_amount (JBool b) = True"
| "invalid_amount (JStr s) = True"
| "invalid_amount (JObject k) = True"

fun the_number :: "jsval \<Rightarrow> jsnum" where
  "the_number (JNum n) = n"
| "the_number JUndefined = NaN"
| "the_number JNull = NaN"
| "the_number (JBool b) = NaN"
| "the_number (JStr s) = NaN"
| "the_number (JObject k) = NaN"

text \<open>
  The handler from the request to its first \<^verbatim>\<open>await\<close>. \<open>isEthereumAddress\<close> stands for
  \<^verbatim>\<open>AlchemyService.isEthereumAddress\<close>, \<open>rid\<close> names the request and its response object,
  \<open>amt\<close> and \<open>addr\<close> are the two fields read from \<^verbatim>\<open>req.body\<close>. Past the first check
  \<open>amt\<close> is a number, which \<open>the_number\<close> reads.
\<close>

definition initiatePaymentHandler ::
  "(jsval \<Rightarrow> bool) \<Rightarrow> int \<Rightarrow> nat \<Rightarrow> jsval \<Rightarrow> jsval \<Rightarrow> server \<Rightarrow> server" where
  "initiatePaymentHandler isEthereumAddress now rid amt addr s =
     (if invalid_amount amt
      then respond rid 400 (ErrorBody ''Invalid amount'')
             (broadcast (Status (Lit ''Invalid amount received from UI.'') True) s)
      else if \<not> truthy addr
      then respond rid 400 (ErrorBody ''Invalid merchant address'')
             (broadcast (Status (Lit ''Invalid merchant address.'') True) s)
      else if \<not> isEthereumAddress addr
      then respond rid 400 (ErrorBody ''Invalid merchant address'')
             (broadcast (Status (Lit ''Invalid merchant address.'') True) s)
      else monitorTransaction now rid addr (the_number amt)
             (broadcast (Status (PreparingFor (the_number amt)) False) s))"

text \<open>\<^verbatim>\<open>nfcApp.processPayment(amount)\<close> resolves with \<open>r\<close>.\<close>

definition processPayment_resolved :: "nat \<Rightarrow> paymentResult \<Rightarrow> server \<Rightarrow> server" where
  "processPayment_resolved rid r s =
     (case pending s rid of
        Some (AwaitProcessPayment n) \<Rightarrow>
          (if success r
           then respond rid 200 (SuccessBody (result_message r))
                  (broadcast (PaymentSuccess (result_message r) n)
                     (s\<lparr>pending := (pending s)(rid := None)\<rparr>))
           else respond rid (if errorType r = Some ''PHONE_MOVED_TOO_QUICKLY'' then 409 else 500)
                  (FailureBody (result_message r) (errorType r))
                  (broadcast (PaymentFailure (result_message r) (errorType r))
                     (s\<lparr>pending := (pending s)(rid := None)\<rparr>)))
      | Some (AwaitMonitor a n h) \<Rightarrow> s
      | None \<Rightarrow> s)"

text \<open>\<^verbatim>\<open>nfcApp.processPayment(amount)\<close> throws or rejects with \<open>e\<close>.\<close>

definition processPayment_threw :: "nat \<Rightarrow> thrown \<Rightarrow> server \<Rightarrow> server" where
  "processPayment_threw rid e s =
     (case pending s rid of
        Some (AwaitProcessPayment n) \<Rightarrow> handler_catch rid e (s\<lparr>pending := (pending s)(rid := None)\<rparr>)
      | Some (AwaitMonitor a n h) \<Rightarrow> s
      | None \<Rightarrow> s)"

section \<open>The WebSocket server's handlers\<close>

text \<open>
  \<^verbatim>\<open>wss.on('connection')\<close> adds the socket to the set and greets it; its \<^verbatim>\<open>close\<close> and
  \<^verbatim>\<open>error\<close> handlers are the only code that takes a socket out of the set.
\<close>

definition wss_connection :: "client \<Rightarrow> server \<Rightarrow> server" where
  "wss_connection c s =
     (if cid c \<in> set (map cid (clients s)) then s
      else s\<lparr>clients := clients s @
                [ws_send (Status (Lit ''Connected to payment terminal.'') False) c]\<rparr>)"

definition ws_close :: "nat \<Rightarrow> server \<Rightarrow> server" where
  "ws_close i s = s\<lparr>clients := filter (\<lambda>c. cid c \<noteq> i) (clients s)\<rparr>"

definition ws_error :: "nat \<Rightarrow> server \<Rightarrow> server" where
  "ws_error i s = s\<lparr>clients := filter (\<lambda>c. cid c \<noteq> i) (clients s)\<rparr>"

section \<open>Executions\<close>

text \<open>
  Node runs one callback at a time and each of the functions above is one such run, so an
  execution of the server is a list of events applied in order.
\<close>

datatype event =
    Request int nat jsval jsval
  | MonitorResolved nat
  | MonitorRejected nat thrown
  | ProcessPaymentResolved nat paymentResult
  | ProcessPaymentThrew nat thrown
  | TimerFired nat
  | FeedEvent nat tx
  | WsConnection client
  | WsClose nat
  | WsError nat

fun step :: "(jsval \<Rightarrow> bool) \<Rightarrow> server \<Rightarrow> event \<Rightarrow> server" where
  "step v s (Request now rid amt addr) = initiatePaymentHandler v now rid amt addr s"
| "step v s (MonitorResolved rid) = monitorTransaction_resolved rid s"
| "step v s (MonitorRejected rid e) = monitorTransaction_catch rid e s"
| "step v s (ProcessPaymentResolved rid r) = processPayment_resolved rid r s"
| "step v s (ProcessPaymentThrew rid e) = processPayment_threw rid e s"
| "step v s (TimerFired h) = timer_fired h s"
| "step v s (FeedEvent i t) = feed_event i t s"
| "step v s (WsConnection c) = wss_connection c s"
| "step v s (WsClose i) = ws_close i s"
| "step v s (WsError i) = ws_error i s"

definition run :: "(jsval \<Rightarrow> bool) \<Rightarrow> event list \<Rightarrow> server \<Rightarrow> server" where
  "run v es s = foldl (step v) s es"

section \<open>PriceCacheService\<close>

record priceEntry =
  price :: jsnum
  timestamp :: int

text \<open>
  The static fields of the class, with the handles of \<^verbatim>\<open>setInterval\<close> that have not been
  cleared, each with its period (\<open>intervals\<close>), and the next handle the runtime gives out.
\<close>

record PriceCacheService =
  cachedPrices :: "string \<rightharpoonup> priceEntry"
  refreshInterval :: "nat option"
  intervals :: "(nat \<times> int) list"
  nextInterval :: nat

definition pc_init :: PriceCacheService where
  "pc_init = \<lparr>cachedPrices = Map.empty, refreshInterval = None, intervals = [], nextInterval = 0\<rparr>"

definition REFRESH_INTERVAL_MS :: int where
  "REFRESH_INTERVAL_MS = 60000"

text \<open>\<^verbatim>\<open>getCachedPrice(symbol)\<close>, with \<open>now\<close> for \<^verbatim>\<open>Date.now()\<close>.\<close>

definition getCachedPrice :: "int \<Rightarrow> string \<Rightarrow> PriceCacheService \<Rightarrow> jsnum" where
  "getCachedPrice now symbol s =
     (case cachedPrices s symbol of
        Some cached \<Rightarrow>
          (if now - timestamp cached < REFRESH_INTERVAL_MS then price cached else Fin 0)
      | None \<Rightarrow> Fin 0)"

text \<open>
  What one \<^verbatim>\<open>fetch\<close> of the loop comes to: the request or the parsing throws, or
  \<^verbatim>\<open>data[coinId]?.usd\<close> is read, a number when it is there.
\<close>

datatype fetch_result = FetchThrows | FetchData "jsnum option"

text \<open>
  The body of the loop of \<^verbatim>\<open>fetchAndCacheAllPrices\<close> for one coin, once its response has
  landed at time \<open>now\<close>: a truthy price is stored with that time, anything else leaves the
  cache as it is.
\<close>

fun cacheResponse :: "string \<Rightarrow> fetch_result \<Rightarrow> int \<Rightarrow> PriceCacheService \<Rightarrow> PriceCacheService" where
  "cacheResponse coinId FetchThrows now s = s"
| "cacheResponse coinId (FetchData None) now s = s"
| "cacheResponse coinId (FetchData (Some p)) now s =
     (if truthy (JNum p)
      then s\<lparr>cachedPrices := (cachedPrices s)(coinId \<mapsto> \<lparr>price = p, timestamp = now\<rparr>)\<rparr>
      else s)"

text \<open>\<^verbatim>\<open>[...new Set(ids)]\<close>: the first occurrence of every id, in order.\<close>

definition uniqueCoingeckoIds :: "string list \<Rightarrow> string list" where
  "uniqueCoingeckoIds ids = rev (remdups (rev ids))"

text \<open>
  \<^verbatim>\<open>fetchAndCacheAllPrices\<close>. \<open>ids\<close> are the \<^verbatim>\<open>coingeckoId\<close>s of \<^verbatim>\<open>SUPPORTED_CHAINS\<close>;
  \<open>env\<close> gives, for a coin, what its fetch comes to and when.
\<close>

definition fetchAndCacheAllPrices ::
  "(string \<Rightarrow> fetch_result \<times> int) \<Rightarrow> string list \<Rightarrow> PriceCacheService \<Rightarrow> PriceCacheService" where
  "fetchAndCacheAllPrices env ids s =
     foldl (\<lambda>s' coinId. cacheResponse coinId (fst (env coinId)) (snd (env coinId)) s') s
       (uniqueCoingeckoIds ids)"

definition setInterval :: "int \<Rightarrow> PriceCacheService \<Rightarrow> nat \<times> PriceCacheService" where
  "setInterval ms s =
     (nextInterval s,
      s\<lparr>intervals := intervals s @ [(nextInterval s, ms)], nextInterval := Suc (nextInterval s)\<rparr>)"

definition clearInterval :: "nat \<Rightarrow> PriceCacheService \<Rightarrow> PriceCacheService" where
  "clearInterval h s = s\<lparr>intervals := filter (\<lambda>i. fst i \<noteq> h) (intervals s)\<rparr>"

text \<open>\<^verbatim>\<open>startPeriodicRefresh\<close>; a timer handle of Node is an object, so it is truthy.\<close>

definition startPeriodicRefresh :: "PriceCacheService \<Rightarrow> PriceCacheService" where
  "startPeriodicRefresh s =
     (case setInterval REFRESH_INTERVAL_MS
             (case refreshInterval s of Some h \<Rightarrow> clearInterval h s | None \<Rightarrow> s) of
        (h', s') \<Rightarrow> s'\<lparr>refreshInterval := Some h'\<rparr>)"

definition initialize ::
  "(string \<Rightarrow> fetch_result \<times> int) \<Rightarrow> string list \<Rightarrow> PriceCacheService \<Rightarrow> PriceCacheService" where
  "initialize env ids s = startPeriodicRefresh (fetchAndCacheAllPrices env ids s)"

definition stop :: "PriceCacheService \<Rightarrow> PriceCacheService" where
  "stop s =
     (case refreshInterval s of
        Some h \<Rightarrow> (clearInterval h s)\<lparr>refreshInterval := None\<rparr>
      | None \<Rightarrow> s)"

text \<open>The interval with handle \<open>h\<close> fires: its callback refreshes all prices.\<close>

definition interval_fired ::
  "nat \<Rightarrow> (string \<Rightarrow> fetch_result \<times> int) \<Rightarrow> string list \<Rightarrow> PriceCacheService \<Rightarrow> PriceCacheService" where
  "interval_fired h env ids s =
     (if h \<in> fst ` set (intervals s) then fetchAndCacheAllPrices env ids s else s)"

text \<open>
  What happens to the service. \<open>Initialize\<close> is a call of \<^verbatim>\<open>initialize\<close> that nothing
  else runs into; \<open>FetchAll\<close> and \<open>StartPeriodicRefresh\<close> are its two halves, for calls that
  overlap at the \<^verbatim>\<open>await\<close>.
\<close>

datatype pc_event =
    Initialize "string \<Rightarrow> fetch_result \<times> int"
  | FetchAll "string \<Rightarrow> fetch_result \<times> int"
  | StartPeriodicRefresh
  | IntervalFired nat "string \<Rightarrow> fetch_result \<times> int"
  | Stop

fun pc_step :: "string list \<Rightarrow> PriceCacheService \<Rightarrow> pc_event \<Rightarrow> PriceCacheService" where
  "pc_step ids s (Initialize env) = initialize env ids s"
| "pc_step ids s (FetchAll env) = fetchAndCacheAllPrices env ids s"
| "pc_step ids s StartPeriodicRefresh = startPeriodicRefresh s"
| "pc_step ids s (IntervalFired h env) = interval_fired h env ids s"
| "pc_step ids s Stop = stop s"

definition pc_run :: "string list \<Rightarrow> pc_event list \<Rightarrow> PriceCacheService \<Rightarrow> PriceCacheService" where
  "pc_run ids es s = foldl (pc_step ids) s es"

text \<open>
  The responses that land, one after the other, whatever refresh each belongs to: coin,
  outcome and time.
\<close>

definition landed ::
  "(string \<times> fetch_result \<times> int) list \<Rightarrow> PriceCacheService \<Rightarrow> PriceCacheService" where
  "landed hist s = foldl (\<lambda>s' x. cacheResponse (fst x) (fst (snd x)) (snd (snd x)) s') s hist"

text \<open>
  The successful fetches of a coin in such a history, oldest first, each with its price
  and landing time. This is the reading of the specification that \<open>getCachedPrice\<close> is
  compared with.
\<close>

fun successes :: "(string \<times> fetch_result \<times> int) list \<Rightarrow> string \<Rightarrow> (jsnum \<times> int) list" where
  "successes [] symbol = []"
| "successes ((c, FetchData (Some p), t) # hist) symbol =
     (if c = symbol \<and> truthy (JNum p) then (p, t) # successes hist symbol
      else successes hist symbol)"
| "successes ((c, FetchData None, t) # hist) symbol = successes hist symbol"
| "successes ((c, FetchThrows, t) # hist) symbol = successes hist symbol"

text \<open>The responses of one run of \<^verbatim>\<open>fetchAndCacheAllPrices\<close>, in the order of its loop.\<close>

definition refresh_history ::
  "(string \<Rightarrow> fetch_result \<times> int) \<Rightarrow> string list \<Rightarrow> (string \<times> fetch_result \<times> int) list" where
  "refresh_history env ids = map (\<lambda>c. (c, fst (env c), snd (env c))) (uniqueCoingeckoIds ids)"

text \<open>
  The responses that an event of the service brings in: those of a refresh for
  \<^verbatim>\<open>initialize\<close>, for a refresh on its own and for the expiry of an interval that is live,
  none for the rest. \<open>pc_history\<close> collects them along a run.
\<close>

fun fetched ::
  "string list \<Rightarrow> PriceCacheService \<Rightarrow> pc_event \<Rightarrow> (string \<times> fetch_result \<times> int) list" where
  "fetched ids s (Initialize env) = refresh_history env ids"
| "fetched ids s (FetchAll env) = refresh_history env ids"
| "fetched ids s StartPeriodicRefresh = []"
| "fetched ids s (IntervalFired h env) =
     (if h \<in> fst ` set (intervals s) then refresh_history env ids else [])"
| "fetched ids s Stop = []"

fun pc_history ::
  "string list \<Rightarrow> PriceCacheService \<Rightarrow> pc_event list \<Rightarrow> (string \<times> fetch_result \<times> int) list" where
  "pc_history ids s [] = []"
| "pc_history ids s (e # es) = fetched ids s e @ pc_history ids (pc_step ids s e) es"

text \<open>The refresh timers that are live are exactly the one the class remembers, if any.\<close>

definition single_interval :: "PriceCacheService \<Rightarrow> bool" where
  "single_interval s =
     (intervals s =
        (case refreshInterval s of None \<Rightarrow> [] | Some h \<Rightarrow> [(h, REFRESH_INTERVAL_MS)]))"

section \<open>Concrete runs\<close>

text \<open>An address and a validator that accepts it, for the runs below.\<close>

definition addr1 :: jsval where
  "addr1 = JStr ''0xMerchant''"

definition accepts_addr1 :: "jsval \<Rightarrow> bool" where
  "accepts_addr1 a = (a = addr1)"

definition open_client :: "nat \<Rightarrow> client" where
  "open_client i = \<lparr>cid = i, ready = OPEN, sendThrows = False, received = []\<rparr>"

definition closed_client :: "nat \<Rightarrow> client" where
  "closed_client i = \<lparr>cid = i, ready = CLOSED, sendThrows = False, received = []\<rparr>"

definition throwing_client :: "nat \<Rightarrow> client" where
  "throwing_client i = \<lparr>cid = i, ready = OPEN, sendThrows = True, received = []\<rparr>"

definition four_clients :: server where
  "four_clients =
     init\<lparr>clients := [open_client 1, closed_client 2, throwing_client 3, open_client 4]\<rparr>"

definition two_requests :: "event list" where
  "two_requests = [Request 0 1 (JNum (Fin 10)) addr1, Request 5 2 (JNum (Fin 20)) addr1]"

definition confirmed_run :: "event list" where
  "confirmed_run =
     [Request 0 1 (JNum (Fin 10)) addr1, MonitorResolved 1, FeedEvent 0 (Tx (Fin 10))]"

definition resumed_run :: "event list" where
  "resumed_run =
     confirmed_run @ [Request 5 2 (JNum (Fin 20)) addr1, MonitorResolved 2]"


definition coins :: "string list" where
  "coins = [''polkadot'', ''kusama'', ''polkadot'']"

definition coin_env :: "string \<Rightarrow> fetch_result \<times> int" where
  "coin_env c =
     (if c = ''polkadot'' then (FetchData (Some (Fin 7)), 1000)
      else if c = ''kusama'' then (FetchThrows, 1001)
      else (FetchData None, 1002))"

definition requested :: server where
  "requested = run accepts_addr1 [Request 0 1 (JNum (Fin 10)) addr1] init"

definition watched :: server where
  "watched = run accepts_addr1 [Request 0 1 (JNum (Fin 10)) addr1, MonitorResolved 1] init"

section \<open>Facts about the primitives\<close>

lemmas prim_defs = broadcast_def setTimeout_def clearTimeout_def activePayments_set_def
  activePayments_delete_def respond_def

lemmas handler_defs = initiatePaymentHandler_def monitorTransaction_def
  monitorTransaction_resolved_def monitorTransaction_catch_def processPayment_resolved_def
  processPayment_threw_def handler_catch_def timer_fired_def timeoutCallback_def
  feed_event_def onMatch_def

lemmas concrete_defs = run_def init_def accepts_addr1_def addr1_def js_ge_def

lemma js_ge_Fin: "js_ge (Fin x) (Fin y) = (y \<le> x)"
  by (simp add: js_ge_def)

lemma js_ge_NaN: "js_ge NaN b = False" "js_ge a NaN = False"
  by (cases b; simp add: js_ge_def) (cases a; simp add: js_ge_def)

lemma send_to_cid: "cid (send_to m c) = cid c"
  by (simp add: send_to_def ws_send_def)

lemma send_to_ready: "ready (send_to m c) = ready c"
  by (simp add: send_to_def ws_send_def)

lemma send_to_received:
  "received (send_to m c) = (if delivers c then received c @ [m] else received c)"
  by (simp add: send_to_def ws_send_def delivers_def)

lemma handler_reaches_processPayment:
  assumes "\<not> invalid_amount amt" and "truthy addr" and "v addr"
  shows "pending (monitorTransaction_resolved rid (initiatePaymentHandler v now rid amt addr s)) rid
           = Some (AwaitProcessPayment (the_number amt))"
  using assms
  by (simp add: initiatePaymentHandler_def monitorTransaction_def monitorTransaction_resolved_def
      prim_defs)

section \<open>Validation of the amount\<close>

text \<open>
  C1, as the specification has it: every request whose amount is \<open>\<le> 0\<close>, \<^verbatim>\<open>NaN\<close>,
  non-finite or not a number is answered with 400, creates no session, starts no timer
  or watcher and makes one advisory broadcast. The handler does not do this for
  \<^verbatim>\<open>Infinity\<close> (which \<^verbatim>\<open>JSON.parse\<close> gives for \<^verbatim>\<open>1e999\<close>): it is a number, it is not
  \<open>\<le> 0\<close> and it is not \<^verbatim>\<open>NaN\<close>, so with an accepted address a session and a timer are
  made and nothing is answered yet.
\<close>

theorem c1_infinite_amount_accepted:
  "\<not> isFinite PosInf
   \<and> activePayments (initiatePaymentHandler accepts_addr1 0 1 (JNum PosInf) addr1 init) addr1
       = Some \<lparr>amount = PosInf, merchantAddress = addr1, startTime = 0, timeout = 0\<rparr>
   \<and> timers (initiatePaymentHandler accepts_addr1 0 1 (JNum PosInf) addr1 init) = [(0, addr1)]
   \<and> responses (initiatePaymentHandler accepts_addr1 0 1 (JNum PosInf) addr1 init) 1 = []
   \<and> broadcasts (initiatePaymentHandler accepts_addr1 0 1 (JNum PosInf) addr1 init)
       = [Status (PreparingFor PosInf) False]"
  by (simp add: handler_defs prim_defs concrete_defs responses_def broadcasts_def)

text \<open>
  C1, amended: every request whose amount is not a number, is \<^verbatim>\<open>NaN\<close>, or is \<open>\<le> 0\<close>
  (\<^verbatim>\<open>-Infinity\<close> among them) is answered with 400 and \<^verbatim>\<open>Invalid amount\<close>; the registry,
  the live timers, the feed's callbacks and the suspended calls are as before, and exactly
  one broadcast, the advisory status, is added.
\<close>

theorem c1_invalid_amount:
  assumes "(\<forall>n. amt \<noteq> JNum n) \<or> amt = JNum NaN \<or> amt = JNum NegInf
           \<or> (\<exists>x. amt = JNum (Fin x) \<and> x \<le> 0)"
  shows "responses (initiatePaymentHandler v now rid amt addr s) rid
           = responses s rid @ [(400, ErrorBody ''Invalid amount'')]
       \<and> activePayments (initiatePaymentHandler v now rid amt addr s) = activePayments s
       \<and> timers (initiatePaymentHandler v now rid amt addr s) = timers s
       \<and> subscriptions (initiatePaymentHandler v now rid amt addr s) = subscriptions s
       \<and> pending (initiatePaymentHandler v now rid amt addr s) = pending s
       \<and> broadcasts (initiatePaymentHandler v now rid amt addr s)
           = broadcasts s @ [Status (Lit ''Invalid amount received from UI.'') True]"
proof -
  have "invalid_amount amt"
    using assms by (cases amt) auto
  then show ?thesis
    by (simp add: initiatePaymentHandler_def prim_defs responses_def broadcasts_def)
qed

theorem c1_invalid_amount_witness:
  "responses (initiatePaymentHandler accepts_addr1 0 1 (JNum (Fin (- 5))) addr1 init) 1
     = [(400, ErrorBody ''Invalid amount'')]
   \<and> activePayments (initiatePaymentHandler accepts_addr1 0 1 (JNum (Fin (- 5))) addr1 init) addr1
       = None
   \<and> timers (initiatePaymentHandler accepts_addr1 0 1 (JNum (Fin (- 5))) addr1 init) = []
   \<and> broadcasts (initiatePaymentHandler accepts_addr1 0 1 (JNum (Fin (- 5))) addr1 init)
       = [Status (Lit ''Invalid amount received from UI.'') True]"
  using c1_invalid_amount [of "JNum (Fin (- 5))" accepts_addr1 0 1 addr1 init]
  by (simp add: init_def responses_def broadcasts_def)

section \<open>A second request for the same address\<close>

text \<open>
  C2: a second request for an address that has a live session is rejected, or the
  earlier session is superseded with its timer cancelled first, and two live timers for
  one address never exist. The code at two requests for \<open>addr1\<close>, the first still
  waiting: the second is not answered, the entry is overwritten with the second session,
  and both timers are live. When the first timer then fires, it deletes the entry that
  now belongs to the second session, whose own timer stays live.
\<close>

theorem c2_two_live_timers:
  "timers_for (run accepts_addr1 two_requests init) addr1 = [0, 1]
   \<and> responses (run accepts_addr1 two_requests init) 2 = []
   \<and> AClearTimeout 0 \<notin> set (trace (run accepts_addr1 two_requests init))
   \<and> map_option timeout (activePayments (run accepts_addr1 two_requests init) addr1) = Some 1
   \<and> timers_for (run accepts_addr1 (two_requests @ [TimerFired 0]) init) addr1 = [1]
   \<and> activePayments (run accepts_addr1 (two_requests @ [TimerFired 0]) init) addr1 = None"
  by (simp add: two_requests_def handler_defs prim_defs concrete_defs timers_for_def
      responses_def)

section \<open>Events after a terminal state\<close>

text \<open>
  C3: once a session is terminal, every later event that refers to it is a no-op, with
  no further broadcast. The code at a request that is confirmed by a transaction of 10
  and then sees the same transaction again: the entry is gone after the first event, and
  the second event broadcasts \<^verbatim>\<open>transaction_confirmed\<close> a second time.
\<close>

theorem c3_late_event_broadcasts_again:
  "activePayments (run accepts_addr1 confirmed_run init) addr1 = None
   \<and> broadcasts (run accepts_addr1 confirmed_run init)
       = [Status (PreparingFor (Fin 10)) False, TransactionConfirmed ''Payment confirmed!'']
   \<and> broadcasts (run accepts_addr1 (confirmed_run @ [FeedEvent 0 (Tx (Fin 10))]) init)
       = [Status (PreparingFor (Fin 10)) False, TransactionConfirmed ''Payment confirmed!'',
          TransactionConfirmed ''Payment confirmed!'']
   \<and> trace (run accepts_addr1 (confirmed_run @ [FeedEvent 0 (Tx (Fin 10))]) init)
       \<noteq> trace (run accepts_addr1 confirmed_run init)"
  by (simp add: confirmed_run_def handler_defs prim_defs concrete_defs broadcasts_def)

section \<open>The order of clean-up\<close>




section \<open>The threshold of the confirmation\<close>

text \<open>
  What one callback does with one transaction: it compares the value with the amount that
  its own call of \<^verbatim>\<open>monitorTransaction\<close> captured, and runs the confirmation path for the
  captured address exactly when the value reaches that amount.
\<close>

lemma feed_event_threshold:
  assumes "i < length (subscriptions s)"
  shows "(feed_event i (Tx v) s \<noteq> s) = js_ge v (w_amount (subscriptions s ! i))
       \<and> trace (feed_event i (Tx v) s)
           = (if js_ge v (w_amount (subscriptions s ! i))
              then trace s @ [AClearTimeout (w_timeout (subscriptions s ! i)),
                              ADelete (w_address (subscriptions s ! i)),
                              ABroadcast (TransactionConfirmed ''Payment confirmed!'')]
              else trace s)
       \<and> activePayments (feed_event i (Tx v) s)
           = (if js_ge v (w_amount (subscriptions s ! i))
              then (activePayments s)(w_address (subscriptions s ! i) := None)
              else activePayments s)"
proof -
  have "feed_event i (Tx v) s \<noteq> s" if "js_ge v (w_amount (subscriptions s ! i))"
  proof
    assume "feed_event i (Tx v) s = s"
    then have "trace (feed_event i (Tx v) s) = trace s" by simp
    then show False
      using assms that by (simp add: feed_event_def onMatch_def prim_defs)
  qed
  then show ?thesis
    using assms by (auto simp add: feed_event_def onMatch_def prim_defs)
qed

text \<open>
  C5: a transaction for a watched address runs the confirmation path if and only if its
  value reaches the expected amount of the session; a value below it changes nothing and
  broadcasts nothing. The code at a session of 10 that a transaction of 10 confirmed,
  followed by a new session of 20 for the same address: the callback of the first session
  is still with the feed. A transaction of 15 is below the 20 the live session expects,
  and its own callback (the second) leaves the state alone; the first callback compares
  15 with its 10, deletes the entry of the live session and broadcasts
  \<^verbatim>\<open>transaction_confirmed\<close>, while the timer of the live session stays live.
\<close>

theorem c5_underpayment_confirmed:
  "map_option amount (activePayments (run accepts_addr1 resumed_run init) addr1) = Some (Fin 20)
   \<and> map w_amount (subscriptions (run accepts_addr1 resumed_run init)) = [Fin 10, Fin 20]
   \<and> \<not> js_ge (Fin 15) (Fin 20)
   \<and> run accepts_addr1 (resumed_run @ [FeedEvent 1 (Tx (Fin 15))]) init
       = run accepts_addr1 resumed_run init
   \<and> activePayments (run accepts_addr1 (resumed_run @ [FeedEvent 0 (Tx (Fin 15))]) init) addr1
       = None
   \<and> broadcasts (run accepts_addr1 (resumed_run @ [FeedEvent 0 (Tx (Fin 15))]) init)
       = broadcasts (run accepts_addr1 resumed_run init)
         @ [TransactionConfirmed ''Payment confirmed!'']
   \<and> timers_for (run accepts_addr1 (resumed_run @ [FeedEvent 0 (Tx (Fin 15))]) init) addr1 = [1]"
  by (simp add: resumed_run_def confirmed_run_def handler_defs prim_defs concrete_defs
      broadcasts_def timers_for_def)

section \<open>The price cache\<close>

lemma landed_snoc:
  "landed (hist @ [x]) s = cacheResponse (fst x) (fst (snd x)) (snd (snd x)) (landed hist s)"
  by (simp add: landed_def)

lemma landed_append: "landed (h1 @ h2) s = landed h2 (landed h1 s)"
  by (simp add: landed_def)

lemma fetchAndCacheAllPrices_landed:
  "fetchAndCacheAllPrices env ids s = landed (refresh_history env ids) s"
  by (simp add: fetchAndCacheAllPrices_def landed_def refresh_history_def foldl_map)

lemma successes_append:
  "successes (h1 @ h2) symbol = successes h1 symbol @ successes h2 symbol"
  by (induction h1 symbol rule: successes.induct) auto

lemma getCachedPrice_landed:
  "getCachedPrice now symbol (landed hist s) =
     (case rev (successes hist symbol) of
        [] \<Rightarrow> getCachedPrice now symbol s
      | (p, t) # older \<Rightarrow> if now - t < REFRESH_INTERVAL_MS then p else Fin 0)"
proof (induction hist rule: rev_induct)
  case Nil
  show ?case by (simp add: landed_def)
next
  case (snoc x hist)
  obtain c r t where x: "x = (c, r, t)" by (cases x)
  show ?case
    using snoc
    by (cases "(c, r, t, s)" rule: cacheResponse.cases)
       (auto simp: x landed_snoc successes_append getCachedPrice_def split: list.splits)
qed

lemma cacheResponse_keeps_timers:
  "intervals (cacheResponse c r t s) = intervals s
   \<and> refreshInterval (cacheResponse c r t s) = refreshInterval s
   \<and> nextInterval (cacheResponse c r t s) = nextInterval s"
  by (cases "(c, r, t, s)" rule: cacheResponse.cases) auto

lemma foldl_keeps_timers:
  "intervals (foldl (\<lambda>s' c. cacheResponse c (f c) (g c) s') s xs) = intervals s
   \<and> refreshInterval (foldl (\<lambda>s' c. cacheResponse c (f c) (g c) s') s xs) = refreshInterval s
   \<and> nextInterval (foldl (\<lambda>s' c. cacheResponse c (f c) (g c) s') s xs) = nextInterval s"
  by (induction xs arbitrary: s) (simp_all add: cacheResponse_keeps_timers)

lemma fetchAll_keeps_timers:
  "intervals (fetchAndCacheAllPrices env ids s) = intervals s
   \<and> refreshInterval (fetchAndCacheAllPrices env ids s) = refreshInterval s
   \<and> nextInterval (fetchAndCacheAllPrices env ids s) = nextInterval s"
  unfolding fetchAndCacheAllPrices_def by (rule foldl_keeps_timers)

lemma getCachedPrice_cong:
  "cachedPrices s = cachedPrices s' \<Longrightarrow> getCachedPrice now symbol s = getCachedPrice now symbol s'"
  by (simp add: getCachedPrice_def)

lemma startPeriodicRefresh_keeps_cache: "cachedPrices (startPeriodicRefresh s) = cachedPrices s"
  by (simp add: startPeriodicRefresh_def setInterval_def clearInterval_def split: option.splits)

lemma stop_keeps_cache: "cachedPrices (stop s) = cachedPrices s"
  by (simp add: stop_def clearInterval_def split: option.splits)

lemma pc_step_cache: "cachedPrices (pc_step ids s e) = cachedPrices (landed (fetched ids s e) s)"
  by (cases e)
     (simp_all add: initialize_def interval_fired_def startPeriodicRefresh_keeps_cache
        stop_keeps_cache fetchAndCacheAllPrices_landed landed_def)

lemma getCachedPrice_pc_run:
  "getCachedPrice now symbol (pc_run ids es s) =
     (case rev (successes (pc_history ids s es) symbol) of
        [] \<Rightarrow> getCachedPrice now symbol s
      | (p, t) # older \<Rightarrow> if now - t < REFRESH_INTERVAL_MS then p else Fin 0)"
proof (induction es arbitrary: s)
  case Nil
  show ?case by (simp add: pc_run_def)
next
  case (Cons e es)
  have run: "pc_run ids (e # es) s = pc_run ids es (pc_step ids s e)"
    by (simp add: pc_run_def)
  have first: "getCachedPrice now symbol (pc_step ids s e) =
     (case rev (successes (fetched ids s e) symbol) of
        [] \<Rightarrow> getCachedPrice now symbol s
      | (p, t) # older \<Rightarrow> if now - t < REFRESH_INTERVAL_MS then p else Fin 0)"
    using getCachedPrice_cong [OF pc_step_cache, of now symbol ids s e]
    by (simp add: getCachedPrice_landed)
  show ?case
    unfolding run
    using Cons [of "pc_step ids s e"] first
    by (auto simp: successes_append split: list.splits)
qed

lemma cachedPrices_cacheResponse:
  "cachedPrices (cacheResponse c r t s) symbol =
     (if c = symbol
      then (case r of
              FetchThrows \<Rightarrow> cachedPrices s symbol
            | FetchData None \<Rightarrow> cachedPrices s symbol
            | FetchData (Some p) \<Rightarrow>
                if truthy (JNum p) then Some \<lparr>price = p, timestamp = t\<rparr> else cachedPrices s symbol)
      else cachedPrices s symbol)"
  by (cases "(c, r, t, s)" rule: cacheResponse.cases) auto

lemma foldl_cache:
  "cachedPrices (foldl (\<lambda>s' c. cacheResponse c (fst (env c)) (snd (env c)) s') s xs) symbol =
     (if symbol \<in> set xs
      then cachedPrices (cacheResponse symbol (fst (env symbol)) (snd (env symbol)) s) symbol
      else cachedPrices s symbol)"
proof (induction xs rule: rev_induct)
  case Nil
  show ?case by simp
next
  case (snoc x xs)
  show ?case
    using snoc
    by (simp add: cachedPrices_cacheResponse split: fetch_result.splits option.splits)
qed

lemma refresh_stores:
  assumes "symbol \<in> set ids" and "env symbol = (FetchData (Some q), t)" and "truthy (JNum q)"
  shows "cachedPrices (fetchAndCacheAllPrices env ids s) symbol = Some \<lparr>price = q, timestamp = t\<rparr>"
  using assms
  by (simp add: fetchAndCacheAllPrices_def foldl_cache uniqueCoingeckoIds_def)

text \<open>
  C6: \<open>getCachedPrice\<close> returns the cached price exactly when a successful fetch for the
  asset landed strictly less than the TTL before the call, the TTL being the refresh
  period of 60 s, and the sentinel 0 when the entry is absent or stale; a successful
  refresh resets the age to zero. A refresh (\<open>fetchAndCacheAllPrices\<close>, on its own, in
  \<open>initialize\<close>, or at the expiry of a live interval) whose fetch for a configured coin
  comes back at time \<open>t\<close> with a truthy price \<open>q\<close> stores \<open>q\<close> with timestamp \<open>t\<close>;
  from then on the answer is \<open>q\<close> while \<open>now - t\<close> is below \<open>REFRESH_INTERVAL_MS\<close>, at
  \<open>now = t\<close> in particular, and 0 afterwards. After any run of the service from its
  initial state, the answer for any symbol is decided by the last successful fetch of it
  in the run: its price if its age is below the TTL, 0 if not, and 0 if there is none.
\<close>

theorem c6_getCachedPrice:
  assumes "symbol \<in> set ids" and "env symbol = (FetchData (Some q), t)" and "truthy (JNum q)"
  shows "REFRESH_INTERVAL_MS = 60000
       \<and> cachedPrices (fetchAndCacheAllPrices env ids s) symbol = Some \<lparr>price = q, timestamp = t\<rparr>
       \<and> getCachedPrice now symbol (fetchAndCacheAllPrices env ids s)
           = (if now - t < REFRESH_INTERVAL_MS then q else Fin 0)
       \<and> getCachedPrice now symbol (initialize env ids s)
           = (if now - t < REFRESH_INTERVAL_MS then q else Fin 0)
       \<and> getCachedPrice now symbol (interval_fired h env ids s)
           = (if h \<in> fst ` set (intervals s)
              then (if now - t < REFRESH_INTERVAL_MS then q else Fin 0)
              else getCachedPrice now symbol s)
       \<and> getCachedPrice t symbol (fetchAndCacheAllPrices env ids s) = q
       \<and> getCachedPrice now symbol' (pc_run ids es pc_init)
           = (case rev (successes (pc_history ids pc_init es) symbol') of
                [] \<Rightarrow> Fin 0
              | (p, t') # older \<Rightarrow> if now - t' < REFRESH_INTERVAL_MS then p else Fin 0)"
proof -
  have stored: "cachedPrices (fetchAndCacheAllPrices env ids s) symbol
      = Some \<lparr>price = q, timestamp = t\<rparr>"
    using assms by (rule refresh_stores)
  have refresh: "getCachedPrice now' symbol (fetchAndCacheAllPrices env ids s)
      = (if now' - t < REFRESH_INTERVAL_MS then q else Fin 0)" for now'
    by (simp add: getCachedPrice_def stored)
  have init: "getCachedPrice now symbol (initialize env ids s)
      = (if now - t < REFRESH_INTERVAL_MS then q else Fin 0)"
    using getCachedPrice_cong [OF startPeriodicRefresh_keeps_cache,
        of now symbol "fetchAndCacheAllPrices env ids s"] refresh [of now]
    by (simp add: initialize_def)
  have fired: "getCachedPrice now symbol (interval_fired h env ids s)
      = (if h \<in> fst ` set (intervals s)
         then (if now - t < REFRESH_INTERVAL_MS then q else Fin 0)
         else getCachedPrice now symbol s)"
    using refresh [of now] by (simp add: interval_fired_def)
  have zero: "getCachedPrice t symbol (fetchAndCacheAllPrices env ids s) = q"
    using refresh [of t] by (simp add: REFRESH_INTERVAL_MS_def)
  have empty: "getCachedPrice now symbol' pc_init = Fin 0"
    by (simp add: getCachedPrice_def pc_init_def)
  have runs: "getCachedPrice now symbol' (pc_run ids es pc_init)
      = (case rev (successes (pc_history ids pc_init es) symbol') of
           [] \<Rightarrow> Fin 0
         | (p, t') # older \<Rightarrow> if now - t' < REFRESH_INTERVAL_MS then p else Fin 0)"
    by (simp add: getCachedPrice_pc_run empty cong: list.case_cong)
  show ?thesis
    using REFRESH_INTERVAL_MS_def stored refresh [of now] init fired zero runs
    by (intro conjI)
qed

theorem c6_getCachedPrice_witness:
  "''polkadot'' \<in> set coins
   \<and> coin_env ''polkadot'' = (FetchData (Some (Fin 7)), 1000)
   \<and> truthy (JNum (Fin 7))
   \<and> getCachedPrice 1000 ''polkadot'' (initialize coin_env coins pc_init) = Fin 7
   \<and> getCachedPrice 60999 ''polkadot'' (initialize coin_env coins pc_init) = Fin 7
   \<and> getCachedPrice 61000 ''polkadot'' (initialize coin_env coins pc_init) = Fin 0
   \<and> getCachedPrice 1001 ''kusama'' (pc_run coins [Initialize coin_env] pc_init) = Fin 0"
proof -
  have h1: "''polkadot'' \<in> set coins"
    by (simp add: coins_def)
  have h2: "coin_env ''polkadot'' = (FetchData (Some (Fin 7)), 1000)"
    by (simp add: coin_env_def)
  have h3: "truthy (JNum (Fin 7))"
    by simp
  have hist: "successes (refresh_history coin_env coins) ''kusama'' = []"
    by (simp add: refresh_history_def uniqueCoingeckoIds_def coins_def coin_env_def)
  have at_landing: "getCachedPrice 1000 ''polkadot'' (initialize coin_env coins pc_init) = Fin 7"
    using c6_getCachedPrice [of "''polkadot''" coins coin_env "Fin 7" 1000 pc_init 1000 0
        "''kusama''" "[Initialize coin_env]", OF h1 h2 h3]
    by (simp add: REFRESH_INTERVAL_MS_def)
  have fresh: "getCachedPrice 60999 ''polkadot'' (initialize coin_env coins pc_init) = Fin 7"
    using c6_getCachedPrice [of "''polkadot''" coins coin_env "Fin 7" 1000 pc_init 60999 0
        "''kusama''" "[Initialize coin_env]", OF h1 h2 h3]
    by (simp add: REFRESH_INTERVAL_MS_def)
  have stale: "getCachedPrice 61000 ''polkadot'' (initialize coin_env coins pc_init) = Fin 0"
    using c6_getCachedPrice [of "''polkadot''" coins coin_env "Fin 7" 1000 pc_init 61000 0
        "''kusama''" "[Initialize coin_env]", OF h1 h2 h3]
    by (simp add: REFRESH_INTERVAL_MS_def)
  have absent: "getCachedPrice 1001 ''kusama'' (pc_run coins [Initialize coin_env] pc_init) = Fin 0"
    using c6_getCachedPrice [of "''polkadot''" coins coin_env "Fin 7" 1000 pc_init 1001 0
        "''kusama''" "[Initialize coin_env]", OF h1 h2 h3]
    by (simp add: hist)
  show ?thesis
    using h1 h2 h3 at_landing fresh stale absent by (intro conjI)
qed

section \<open>Failure of the subscription setup\<close>

lemma map_received_broadcast:
  "map received (clients (broadcast m s))
     = map (\<lambda>c. if delivers c then received c @ [m] else received c) (clients s)"
  by (simp add: broadcast_def send_to_received)

text \<open>
  C7: when the subscription setup of a suspended \<^verbatim>\<open>monitorTransaction\<close> fails, with
  whatever was thrown, the timer of the session is cancelled, the entry of its address is
  removed from the registry, the call is suspended no more, and \<^verbatim>\<open>payment_failure\<close> with
  \<^verbatim>\<open>MONITORING_ERROR\<close> is broadcast and reaches every client that is open and whose
  \<^verbatim>\<open>send\<close> does not throw; only then is the error rethrown. The handler that catches it
  broadcasts \<^verbatim>\<open>payment_failure\<close> with \<^verbatim>\<open>SERVER_ERROR\<close> and answers 500 when the error has
  a \<^verbatim>\<open>message\<close> to read; when the error is \<^verbatim>\<open>null\<close> or \<^verbatim>\<open>undefined\<close>, the handler's
  promise rejects instead, after the clean-up and the first notification.
\<close>

theorem c7_monitoring_failure:
  assumes "pending s rid = Some (AwaitMonitor a n h)"
  shows "activePayments (monitorTransaction_catch rid e s) a = None
       \<and> h \<notin> fst ` set (timers (monitorTransaction_catch rid e s))
       \<and> pending (monitorTransaction_catch rid e s) rid = None
       \<and> subscriptions (monitorTransaction_catch rid e s) = subscriptions s
       \<and> trace (monitorTransaction_catch rid e s)
           = trace s @
             [AClearTimeout h, ADelete a,
              ABroadcast (PaymentFailure ''Failed to monitor transaction'' (Some ''MONITORING_ERROR''))]
             @ (case errorMessage e of
                  None \<Rightarrow> [AHandlerRejects rid]
                | Some m \<Rightarrow>
                    [ABroadcast (PaymentFailure (''Server error: '' @ m) (Some ''SERVER_ERROR'')),
                     ARespond rid 500 (ErrorBody ''Internal server error'')])
       \<and> broadcasts (monitorTransaction_catch rid e s)
           = broadcasts s @
             PaymentFailure ''Failed to monitor transaction'' (Some ''MONITORING_ERROR'')
             # (case errorMessage e of
                  None \<Rightarrow> []
                | Some m \<Rightarrow> [PaymentFailure (''Server error: '' @ m) (Some ''SERVER_ERROR'')])
       \<and> map received (clients (monitorTransaction_catch rid e s))
           = map (\<lambda>c. if delivers c
                      then received c @
                        PaymentFailure ''Failed to monitor transaction'' (Some ''MONITORING_ERROR'')
                        # (case errorMessage e of
                             None \<Rightarrow> []
                           | Some m \<Rightarrow>
                               [PaymentFailure (''Server error: '' @ m) (Some ''SERVER_ERROR'')])
                      else received c) (clients s)
       \<and> responses (monitorTransaction_catch rid e s) rid
           = responses s rid @
             (case errorMessage e of
                None \<Rightarrow> []
              | Some m \<Rightarrow> [(500, ErrorBody ''Internal server error'')])"
  using assms
  by (auto simp add: monitorTransaction_catch_def handler_catch_def prim_defs broadcasts_def
      responses_def send_to_def ws_send_def delivers_def split: option.splits)

theorem c7_monitoring_failure_witness:
  "pending requested 1 = Some (AwaitMonitor addr1 (Fin 10) 0)
   \<and> activePayments requested addr1 \<noteq> None
   \<and> timers requested = [(0, addr1)]
   \<and> activePayments (monitorTransaction_catch 1 ThrownNullish requested) addr1 = None
   \<and> timers (monitorTransaction_catch 1 ThrownNullish requested) = []
   \<and> broadcasts (monitorTransaction_catch 1 ThrownNullish requested)
       = [Status (PreparingFor (Fin 10)) False,
          PaymentFailure ''Failed to monitor transaction'' (Some ''MONITORING_ERROR'')]
   \<and> responses (monitorTransaction_catch 1 ThrownNullish requested) 1 = []
   \<and> activePayments (monitorTransaction_catch 1 (Thrown None) requested) addr1 = None
   \<and> timers (monitorTransaction_catch 1 (Thrown None) requested) = []
   \<and> broadcasts (monitorTransaction_catch 1 (Thrown None) requested)
       = [Status (PreparingFor (Fin 10)) False,
          PaymentFailure ''Failed to monitor transaction'' (Some ''MONITORING_ERROR''),
          PaymentFailure ''Server error: Internal server error during payment processing.''
            (Some ''SERVER_ERROR'')]
   \<and> responses (monitorTransaction_catch 1 (Thrown None) requested) 1
       = [(500, ErrorBody ''Internal server error'')]"
proof -
  have p: "pending requested 1 = Some (AwaitMonitor addr1 (Fin 10) 0)"
    by (simp add: requested_def handler_defs prim_defs concrete_defs)
  have before: "activePayments requested addr1 \<noteq> None \<and> timers requested = [(0, addr1)]
      \<and> broadcasts requested = [Status (PreparingFor (Fin 10)) False]
      \<and> responses requested 1 = []"
    by (simp add: requested_def handler_defs prim_defs concrete_defs broadcasts_def responses_def)
  have after: "timers (monitorTransaction_catch 1 ThrownNullish requested) = []
      \<and> timers (monitorTransaction_catch 1 (Thrown None) requested) = []"
    using p before by (simp add: monitorTransaction_catch_def handler_catch_def prim_defs)
  show ?thesis
    using p before after c7_monitoring_failure [OF p, of ThrownNullish]
      c7_monitoring_failure [OF p, of "Thrown None"]
    by simp
qed

section \<open>Broadcasting\<close>

text \<open>
  C8, as the specification has it: a broadcast reaches the other sinks when one sink is
  closed or throws, no error reaches the caller, and every sink that is closed or whose
  delivery fails is removed from the registered set. The code at four clients, the second
  closed and the third throwing: after the broadcast all four are still registered, the
  closed one and the throwing one among them.
\<close>

theorem c8_failed_sinks_stay_registered:
  "map delivers (clients four_clients) = [True, False, False, True]
   \<and> map cid (clients (broadcast (TransactionConfirmed ''Payment confirmed!'') four_clients))
       = [1, 2, 3, 4]
   \<and> map ready (clients (broadcast (TransactionConfirmed ''Payment confirmed!'') four_clients))
       = [OPEN, CLOSED, OPEN, OPEN]
   \<and> map received (clients (broadcast (TransactionConfirmed ''Payment confirmed!'') four_clients))
       = [[TransactionConfirmed ''Payment confirmed!''], [], [],
          [TransactionConfirmed ''Payment confirmed!'']]"
  by (simp add: broadcast_def four_clients_def init_def open_client_def closed_client_def
      throwing_client_def send_to_def ws_send_def delivers_def)

text \<open>
  C8, amended: a broadcast delivers the message to every registered sink that is open and
  whose \<^verbatim>\<open>send\<close> does not throw, whatever the other sinks are (closed, or throwing), and
  returns to its caller; it leaves the registered set as it is. A sink leaves the set when
  the \<^verbatim>\<open>close\<close> or \<^verbatim>\<open>error\<close> handler of its connection runs.
\<close>

theorem c8_broadcast_isolation:
  "map cid (clients (broadcast m s)) = map cid (clients s)
   \<and> map ready (clients (broadcast m s)) = map ready (clients s)
   \<and> map received (clients (broadcast m s))
       = map (\<lambda>c. if delivers c then received c @ [m] else received c) (clients s)
   \<and> map cid (clients (ws_close i s)) = filter (\<lambda>j. j \<noteq> i) (map cid (clients s))
   \<and> map cid (clients (ws_error i s)) = filter (\<lambda>j. j \<noteq> i) (map cid (clients s))"
  by (simp add: broadcast_def send_to_cid send_to_ready send_to_received ws_close_def
      ws_error_def filter_map comp_def)

section \<open>The outcome of the initiator\<close>

text \<open>
  A call that passed validation and whose subscription was set up is suspended at
  \<^verbatim>\<open>nfcApp.processPayment\<close> (\<open>handler_reaches_processPayment\<close>). What the handler then
  sends: 200 and \<^verbatim>\<open>payment_success\<close> for a success; for a failure 409 exactly when the
  error type is \<^verbatim>\<open>PHONE_MOVED_TOO_QUICKLY\<close> and 500 otherwise, with \<^verbatim>\<open>payment_failure\<close> and
  the error type; for a throw, 500 and \<^verbatim>\<open>payment_failure\<close> with \<^verbatim>\<open>SERVER_ERROR\<close> when the
  error has a \<^verbatim>\<open>message\<close> to read, and nothing when it is \<^verbatim>\<open>null\<close> or \<^verbatim>\<open>undefined\<close>.
\<close>

lemma initiator_outcomes:
  assumes "pending s rid = Some (AwaitProcessPayment n)"
  shows "responses (processPayment_resolved rid r s) rid
           = responses s rid @
             [if success r then (200, SuccessBody (result_message r))
              else (if errorType r = Some ''PHONE_MOVED_TOO_QUICKLY'' then 409 else 500,
                    FailureBody (result_message r) (errorType r))]
       \<and> broadcasts (processPayment_resolved rid r s)
           = broadcasts s @
             [if success r then PaymentSuccess (result_message r) n
              else PaymentFailure (result_message r) (errorType r)]
       \<and> responses (processPayment_threw rid e s) rid
           = responses s rid @
             (case errorMessage e of
                None \<Rightarrow> []
              | Some m \<Rightarrow> [(500, ErrorBody ''Internal server error'')])
       \<and> broadcasts (processPayment_threw rid e s)
           = broadcasts s @
             (case errorMessage e of
                None \<Rightarrow> []
              | Some m \<Rightarrow> [PaymentFailure (''Server error: '' @ m) (Some ''SERVER_ERROR'')])"
  using assms
  by (simp add: processPayment_resolved_def processPayment_threw_def handler_catch_def prim_defs
      broadcasts_def responses_def split: option.splits)

text \<open>
  C9: success gives 200 and \<^verbatim>\<open>payment_success\<close>; a reported failure gives 409 exactly
  for \<^verbatim>\<open>PHONE_MOVED_TOO_QUICKLY\<close> and 500 otherwise, with \<^verbatim>\<open>payment_failure\<close>; a throw
  gives 500 and \<^verbatim>\<open>payment_failure\<close> with \<^verbatim>\<open>SERVER_ERROR\<close>. The code at a watched session
  whose initiator rejects with \<^verbatim>\<open>undefined\<close>: the \<^verbatim>\<open>catch\<close> of the handler reads
  \<^verbatim>\<open>error.message\<close>, which raises, so no response is sent and nothing is broadcast; the
  promise of the handler rejects.
\<close>

theorem c9_nullish_throw_unanswered:
  "pending watched 1 = Some (AwaitProcessPayment (Fin 10))
   \<and> responses (processPayment_threw 1 ThrownNullish watched) 1 = []
   \<and> broadcasts (processPayment_threw 1 ThrownNullish watched) = broadcasts watched
   \<and> broadcasts watched = [Status (PreparingFor (Fin 10)) False]
   \<and> trace (processPayment_threw 1 ThrownNullish watched) = trace watched @ [AHandlerRejects 1]"
  by (simp add: watched_def handler_defs prim_defs concrete_defs broadcasts_def responses_def)

section \<open>The periodic refresh\<close>

lemma single_interval_start: "single_interval s \<Longrightarrow> single_interval (startPeriodicRefresh s)"
  by (auto simp: single_interval_def startPeriodicRefresh_def setInterval_def clearInterval_def
      split: option.splits)

lemma single_interval_fetch:
  "single_interval s \<Longrightarrow> single_interval (fetchAndCacheAllPrices env ids s)"
  by (simp add: single_interval_def fetchAll_keeps_timers)

lemma single_interval_stop: "single_interval s \<Longrightarrow> single_interval (stop s)"
  by (auto simp: single_interval_def stop_def clearInterval_def split: option.splits)

lemma single_interval_step: "single_interval s \<Longrightarrow> single_interval (pc_step ids s e)"
  by (cases e) (simp_all add: initialize_def interval_fired_def single_interval_start
      single_interval_fetch single_interval_stop)

lemma single_interval_run: "single_interval s \<Longrightarrow> single_interval (pc_run ids es s)"
  unfolding pc_run_def by (induction es arbitrary: s) (simp_all add: single_interval_step)

lemma single_interval_init: "single_interval pc_init"
  by (simp add: single_interval_def pc_init_def)

text \<open>
  C10: however often \<open>initialize\<close> and \<open>startPeriodicRefresh\<close> run, and however they
  are mixed with refreshes, expiries of the interval and \<open>stop\<close>, at most one refresh
  timer is live; a further \<open>initialize\<close> or \<open>startPeriodicRefresh\<close> leaves exactly one,
  the new one with the period \<open>REFRESH_INTERVAL_MS\<close>, the one installed before having
  been cleared.
\<close>

theorem c10_one_refresh_timer:
  "length (intervals (pc_run ids es pc_init)) \<le> 1
   \<and> intervals (initialize env ids (pc_run ids es pc_init))
       = [(nextInterval (pc_run ids es pc_init), REFRESH_INTERVAL_MS)]
   \<and> intervals (startPeriodicRefresh (pc_run ids es pc_init))
       = [(nextInterval (pc_run ids es pc_init), REFRESH_INTERVAL_MS)]
   \<and> refreshInterval (initialize env ids (pc_run ids es pc_init))
       = Some (nextInterval (pc_run ids es pc_init))"
proof -
  have inv: "single_interval (pc_run ids es pc_init)"
    by (rule single_interval_run [OF single_interval_init])
  have one: "length (intervals (pc_run ids es pc_init)) \<le> 1"
    using inv by (simp add: single_interval_def split: option.splits)
  have start: "intervals (startPeriodicRefresh (pc_run ids es pc_init))
      = [(nextInterval (pc_run ids es pc_init), REFRESH_INTERVAL_MS)]"
    using inv
    by (auto simp: startPeriodicRefresh_def setInterval_def clearInterval_def
        single_interval_def split: option.splits)
  have again: "intervals (initialize env ids (pc_run ids es pc_init))
      = [(nextInterval (pc_run ids es pc_init), REFRESH_INTERVAL_MS)]"
    using inv
    by (auto simp: initialize_def startPeriodicRefresh_def setInterval_def clearInterval_def
        fetchAll_keeps_timers single_interval_def split: option.splits)
  have handle: "refreshInterval (initialize env ids (pc_run ids es pc_init))
      = Some (nextInterval (pc_run ids es pc_init))"
    by (auto simp: initialize_def startPeriodicRefresh_def setInterval_def clearInterval_def
        fetchAll_keeps_timers split: option.splits)
  show ?thesis
    using one start again handle by simp
qed

end
